theory Spec2Isabelle
  imports Complex_Main "HOL-Library.Sublist"
begin

section \<open>JavaScript values as the handlers see them\<close>

text \<open>
  The handlers of \<^verbatim>\<open>index.js\<close> receive values that \<^verbatim>\<open>express.json()\<close> and the query
  parser have already built: a field of \<^verbatim>\<open>req.body\<close> or of \<^verbatim>\<open>req.query\<close> is either
  \<^verbatim>\<open>undefined\<close> (absent) or a value of the type below. A finite JavaScript number is a
  rational; \<^verbatim>\<open>NaN\<close> only arises from \<^verbatim>\<open>parseInt\<close> and is modelled where it arises. The
  infinities and the rounding of IEEE doubles are outside the model. A string is the list
  of its characters; the handlers compare strings, test them for emptiness, search one in
  another and lower-case them.
\<close>

datatype json =
    JNull
  | JBool bool
  | JNum rat
  | JStr string
  | JArr "json list"
  | JObj "(string \<times> json) list"

text \<open>A field that may be \<^verbatim>\<open>undefined\<close>: \<open>None\<close> is \<^verbatim>\<open>undefined\<close>.\<close>

type_synonym jsval = "json option"

text \<open>
  \<^verbatim>\<open>ToBoolean\<close>, the test behind \<^verbatim>\<open>if (x)\<close>, \<^verbatim>\<open>!x\<close>, \<^verbatim>\<open>x && y\<close>, \<^verbatim>\<open>x || y\<close> and
  \<^verbatim>\<open>x ? a : b\<close>: \<^verbatim>\<open>undefined\<close>, \<^verbatim>\<open>null\<close>, \<^verbatim>\<open>false\<close>, \<^verbatim>\<open>0\<close> and \<^verbatim>\<open>''\<close> are falsy,
  every array and object is truthy.
\<close>

fun truthy :: "jsval \<Rightarrow> bool" where
  "truthy None = False"
| "truthy (Some JNull) = False"
| "truthy (Some (JBool b)) = b"
| "truthy (Some (JNum r)) = (r \<noteq> 0)"
| "truthy (Some (JStr s)) = (s \<noteq> [])"
| "truthy (Some (JArr xs)) = True"
| "truthy (Some (JObj kvs)) = True"

text \<open>An exception thrown inside a handler; only \<^verbatim>\<open>TypeError\<close> can arise in this code.\<close>

datatype exn = TypeError

text \<open>
  \<^verbatim>\<open>String.prototype.toLowerCase\<close> maps every cased letter of Unicode, by tables that
  belong to the JavaScript runtime and not to the source. The handlers that call the method
  take it as their first argument \<open>lc\<close>, a function from strings to strings about which
  nothing is assumed.

  \<^verbatim>\<open>v.toLowerCase()\<close>: only a string has the method; on any other value the property is
  \<^verbatim>\<open>undefined\<close> and the call throws a \<^verbatim>\<open>TypeError\<close>.
\<close>

fun toLowerCase :: "(string \<Rightarrow> string) \<Rightarrow> json \<Rightarrow> exn + string" where
  "toLowerCase lc (JStr s) = Inr (lc s)"
| "toLowerCase lc v = Inl TypeError"

text \<open>
  On a string of ASCII characters the method replaces \<^verbatim>\<open>A\<close> to \<^verbatim>\<open>Z\<close> by \<^verbatim>\<open>a\<close> to \<^verbatim>\<open>z\<close>
  and keeps every other character. \<open>ascii_lower\<close> is that function; it stands for the
  method where a request is run on concrete ASCII strings, and only there.
\<close>

definition lower_char :: "char \<Rightarrow> char" where
  "lower_char c =
     (let n = (of_char c :: nat)
      in if 65 \<le> n \<and> n \<le> 90 then char_of (n + 32) else c)"

definition ascii_lower :: "string \<Rightarrow> string" where
  "ascii_lower s = map lower_char s"

text \<open>\<^verbatim>\<open>s.includes(q)\<close> on two strings: \<open>q\<close> occurs in \<open>s\<close> as a contiguous substring.\<close>

fun starts_with :: "'a list \<Rightarrow> 'a list \<Rightarrow> bool" where
  "starts_with s [] = True"
| "starts_with [] (c # q) = False"
| "starts_with (d # s) (c # q) = (d = c \<and> starts_with s q)"

fun includes_str :: "'a list \<Rightarrow> 'a list \<Rightarrow> bool" where
  "includes_str [] q = (q = [])"
| "includes_str (d # s) q = (starts_with (d # s) q \<or> includes_str s q)"

text \<open>
  The result of \<^verbatim>\<open>parseInt\<close> on a path or query parameter: an integer, or \<^verbatim>\<open>NaN\<close>
  (\<open>None\<close>) when the string does not start with a number.
\<close>

type_synonym jsint = "int option"

text \<open>
  \<^verbatim>\<open>bodyId !== paramId\<close>, where \<open>paramId\<close> comes from \<^verbatim>\<open>parseInt\<close>: strict inequality
  holds unless both are numbers of the same value; \<^verbatim>\<open>NaN\<close> differs from everything.
\<close>

fun strict_neq :: "jsval \<Rightarrow> jsint \<Rightarrow> bool" where
  "strict_neq (Some (JNum r)) (Some n) = (r \<noteq> of_int n)"
| "strict_neq v p = True"

section \<open>Books, the Store and responses\<close>

record book =
  book_id :: int
  title :: json
  author :: json

type_synonym store = "book list"

datatype payload =
    Books "book list"
  | OneBook book
  | Error string
  | NoBody

datatype response = Response (status: nat) (payload: payload)

text \<open>Lines 59 to 62: the Store at process start.\<close>

definition books0 :: store where
  "books0 =
     [\<lparr>book_id = 1, title = JStr ''1984'', author = JStr ''George Orwell''\<rparr>,
      \<lparr>book_id = 2, title = JStr ''The Hobbit'', author = JStr ''J.R.R. Tolkien''\<rparr>]"

text \<open>
  The global error handler (lines 180 to 183): express routes an exception thrown by a
  route handler to it.
\<close>

definition error_handler :: "exn \<Rightarrow> response" where
  "error_handler e = Response 500 (Error ''Something went wrong on the server.'')"

section \<open>Authentication middleware\<close>

text \<open>
  A middleware either answers (\<open>Some\<close> response) or calls \<^verbatim>\<open>next()\<close> (\<open>None\<close>). The
  \<^verbatim>\<open>authorization\<close> header is a string or absent; \<^verbatim>\<open>!token\<close> holds when it is absent or
  empty.
\<close>

definition requireAuth :: "string option \<Rightarrow> response option" where
  "requireAuth token =
     (if token = None \<or> token = Some []
      then Some (Response 401 (Error ''Unauthorized. No token provided.''))
      else None)"

definition requireAdmin :: "string option \<Rightarrow> response option" where
  "requireAdmin token =
     (if token \<noteq> Some ''Bearer admin-token''
      then Some (Response 403 (Error ''Forbidden. Admin access required.''))
      else None)"

section \<open>Array methods with a callback\<close>

text \<open>
  \<^verbatim>\<open>Array.prototype.find\<close> and \<^verbatim>\<open>filter\<close> call the callback on the elements in order; an
  exception thrown by the callback ends the iteration and propagates. \<open>find_js\<close> stops at
  the first element for which the callback is true.
\<close>

fun find_js :: "('a \<Rightarrow> exn + bool) \<Rightarrow> 'a list \<Rightarrow> exn + 'a option" where
  "find_js f [] = Inr None"
| "find_js f (x # xs) =
     (case f x of
        Inl e \<Rightarrow> Inl e
      | Inr True \<Rightarrow> Inr (Some x)
      | Inr False \<Rightarrow> find_js f xs)"

fun filter_js :: "('a \<Rightarrow> exn + bool) \<Rightarrow> 'a list \<Rightarrow> exn + 'a list" where
  "filter_js f [] = Inr []"
| "filter_js f (x # xs) =
     (case f x of
        Inl e \<Rightarrow> Inl e
      | Inr keep \<Rightarrow>
          (case filter_js f xs of
             Inl e \<Rightarrow> Inl e
           | Inr ys \<Rightarrow> Inr (if keep then x # ys else ys)))"

text \<open>\<^verbatim>\<open>findIndex\<close> with a callback that cannot throw; \<open>None\<close> is the result \<^verbatim>\<open>-1\<close>.\<close>

fun findIndex :: "('a \<Rightarrow> bool) \<Rightarrow> 'a list \<Rightarrow> nat option" where
  "findIndex P [] = None"
| "findIndex P (x # xs) =
     (if P x then Some 0 else map_option Suc (findIndex P xs))"

text \<open>
  \<^verbatim>\<open>xs.slice(start, end)\<close> with both arguments given: \<^verbatim>\<open>NaN\<close> counts as 0, a negative
  index counts from the end, and both are clamped to the array.
\<close>

definition slice_index :: "nat \<Rightarrow> jsint \<Rightarrow> nat" where
  "slice_index len i =
     (let r = (case i of None \<Rightarrow> 0 | Some n \<Rightarrow> n)
      in if r < 0 then nat (max (int len + r) 0) else nat (min r (int len)))"

definition slice :: "'a list \<Rightarrow> jsint \<Rightarrow> jsint \<Rightarrow> 'a list" where
  "slice xs start end' =
     (let k = slice_index (length xs) start;
          final = slice_index (length xs) end'
      in take (final - k) (drop k xs))"

text \<open>Arithmetic on \<^verbatim>\<open>parseInt\<close> results: \<^verbatim>\<open>NaN\<close> is absorbing.\<close>

fun num_op :: "(int \<Rightarrow> int \<Rightarrow> int) \<Rightarrow> jsint \<Rightarrow> jsint \<Rightarrow> jsint" where
  "num_op f (Some a) (Some b) = Some (f a b)"
| "num_op f a b = None"

section \<open>Route handlers\<close>

text \<open>
  Lines 70 to 76. \<open>page\<close> and \<open>limit\<close> are the values of
  \<^verbatim>\<open>parseInt(req.query.page || '1')\<close> and \<^verbatim>\<open>parseInt(req.query.limit || '10')\<close>: without
  query parameters they are 1 and 10.
\<close>

definition get_books :: "store \<Rightarrow> jsint \<Rightarrow> jsint \<Rightarrow> response" where
  "get_books books page limit =
     (let start = num_op (*) (num_op (-) page (Some 1)) limit;
          paginated = slice books start (num_op (+) start limit)
      in Response 200 (Books paginated))"

text \<open>
  Lines 86 to 96, the callback of the search: both \<^verbatim>\<open>matchesTitle\<close> and
  \<^verbatim>\<open>matchesAuthor\<close> are computed before the conjunction is returned.
\<close>

definition matches_field :: "(string \<Rightarrow> string) \<Rightarrow> json \<Rightarrow> jsval \<Rightarrow> exn + bool" where
  "matches_field lc field q =
     (if truthy q
      then (case toLowerCase lc field of
              Inl e \<Rightarrow> Inl e
            | Inr f \<Rightarrow>
                (case toLowerCase lc (the q) of
                   Inl e \<Rightarrow> Inl e
                 | Inr s \<Rightarrow> Inr (includes_str f s)))
      else Inr True)"

definition search_match :: "(string \<Rightarrow> string) \<Rightarrow> jsval \<Rightarrow> jsval \<Rightarrow> book \<Rightarrow> exn + bool" where
  "search_match lc qtitle qauthor b =
     (case matches_field lc (title b) qtitle of
        Inl e \<Rightarrow> Inl e
      | Inr matchesTitle \<Rightarrow>
          (case matches_field lc (author b) qauthor of
             Inl e \<Rightarrow> Inl e
           | Inr matchesAuthor \<Rightarrow> Inr (matchesTitle \<and> matchesAuthor)))"

text \<open>Lines 79 to 103.\<close>

definition search_books :: "(string \<Rightarrow> string) \<Rightarrow> store \<Rightarrow> jsval \<Rightarrow> jsval \<Rightarrow> response" where
  "search_books lc books qtitle qauthor =
     (if \<not> truthy qtitle \<and> \<not> truthy qauthor
      then Response 400 (Error ''Please provide at least a title or author for search'')
      else (case filter_js (search_match lc qtitle qauthor) books of
              Inl e \<Rightarrow> error_handler e
            | Inr filteredBooks \<Rightarrow>
                if length filteredBooks = 0
                then Response 404 (Error ''Books not found for search'')
                else Response 200 (Books filteredBooks)))"

text \<open>
  The callback \<^verbatim>\<open>b => b.id === paramId\<close> of lines 107, 151 and 169, where \<open>paramId\<close> is
  the value of \<^verbatim>\<open>parseInt(req.params.id)\<close>: never true for \<^verbatim>\<open>NaN\<close>.
\<close>

definition id_is :: "jsint \<Rightarrow> book \<Rightarrow> bool" where
  "id_is paramId b = (paramId = Some (book_id b))"

text \<open>Lines 106 to 110.\<close>

definition get_book :: "store \<Rightarrow> jsint \<Rightarrow> response" where
  "get_book books paramId =
     (case List.find (id_is paramId) books of
        None \<Rightarrow> Response 404 (Error ''Book not found'')
      | Some b \<Rightarrow> Response 200 (OneBook b))"

text \<open>
  Lines 123 to 126, the callback of the duplicate check: \<^verbatim>\<open>&&\<close> evaluates the author
  comparison only when the titles are equal.
\<close>

definition same_title_author :: "(string \<Rightarrow> string) \<Rightarrow> json \<Rightarrow> json \<Rightarrow> book \<Rightarrow> exn + bool" where
  "same_title_author lc t a b =
     (case toLowerCase lc (title b) of
        Inl e \<Rightarrow> Inl e
      | Inr bt \<Rightarrow>
          (case toLowerCase lc t of
             Inl e \<Rightarrow> Inl e
           | Inr rt \<Rightarrow>
               if bt \<noteq> rt then Inr False
               else (case toLowerCase lc (author b) of
                       Inl e \<Rightarrow> Inl e
                     | Inr ba \<Rightarrow>
                         (case toLowerCase lc a of
                            Inl e \<Rightarrow> Inl e
                          | Inr ra \<Rightarrow> Inr (ba = ra)))))"

text \<open>
  Lines 113 to 139, after \<^verbatim>\<open>requireAuth\<close>. The three arguments after the Store are the
  fields \<^verbatim>\<open>id\<close>, \<^verbatim>\<open>title\<close> and \<^verbatim>\<open>author\<close> that the handler takes out of \<^verbatim>\<open>req.body\<close>,
  the object left by \<^verbatim>\<open>express.json()\<close>; a field the body does not have is
  \<^verbatim>\<open>undefined\<close>. The result is the response and the Store afterwards.
\<close>

definition post_book :: "(string \<Rightarrow> string) \<Rightarrow> store \<Rightarrow> jsval \<Rightarrow> jsval \<Rightarrow> jsval \<Rightarrow> response \<times> store" where
  "post_book lc books bid btitle bauthor =
     (if truthy bid
      then (Response 400 (Error ''ID must not be provided when creating a book''), books)
      else if \<not> truthy btitle \<or> \<not> truthy bauthor
      then (Response 400 (Error ''Both title and author are required.''), books)
      else (case find_js (same_title_author lc (the btitle) (the bauthor)) books of
              Inl e \<Rightarrow> (error_handler e, books)
            | Inr (Some duplicate) \<Rightarrow>
                (Response 409 (Error ''A book with the same title and author already exists''),
                 books)
            | Inr None \<Rightarrow>
                (let newBook = \<lparr>book_id = int (length books) + 1,
                                title = the btitle, author = the bauthor\<rparr>
                 in (Response 201 (OneBook newBook), books @ [newBook]))))"

text \<open>
  Lines 143 to 158, after \<^verbatim>\<open>requireAuth\<close>. The source finds the first Book with the id
  and assigns to its fields; the Store then holds the changed Book at the same position.
\<close>

definition put_book :: "store \<Rightarrow> jsint \<Rightarrow> jsval \<Rightarrow> jsval \<Rightarrow> jsval \<Rightarrow> response \<times> store" where
  "put_book books paramId bodyId btitle bauthor =
     (if truthy bodyId \<and> strict_neq bodyId paramId
      then (Response 400 (Error ''Updating book ID is not allowed.''), books)
      else (case findIndex (id_is paramId) books of
              None \<Rightarrow> (Response 404 (Error ''Book not found''), books)
            | Some i \<Rightarrow>
                (let book = books ! i;
                     book' = book\<lparr>title := (if truthy btitle then the btitle else title book),
                                  author := (if truthy bauthor then the bauthor else author book)\<rparr>
                 in (Response 200 (OneBook book'), books[i := book']))))"

text \<open>Lines 162 to 165, after \<^verbatim>\<open>requireAuth\<close> and \<^verbatim>\<open>requireAdmin\<close>.\<close>

definition delete_all :: "store \<Rightarrow> response \<times> store" where
  "delete_all books = (Response 204 NoBody, [])"

text \<open>
  Lines 168 to 174, after \<^verbatim>\<open>requireAuth\<close> and \<^verbatim>\<open>requireAdmin\<close>:
  \<^verbatim>\<open>books.splice(index, 1)\<close> removes the element at \<open>index\<close>.
\<close>

definition delete_book :: "store \<Rightarrow> jsint \<Rightarrow> response \<times> store" where
  "delete_book books paramId =
     (case findIndex (id_is paramId) books of
        None \<Rightarrow> (Response 404 (Error ''Book not found''), books)
      | Some index \<Rightarrow> (Response 204 NoBody, take index books @ drop (Suc index) books))"

section \<open>Requests and the routes\<close>

text \<open>
  One constructor per route, in the order of registration (the literal paths
  \<^verbatim>\<open>/search\<close> and \<^verbatim>\<open>/reset\<close> are registered before \<^verbatim>\<open>/:id\<close>). A request carries its
  \<^verbatim>\<open>authorization\<close> header where the route has a guard. The logger of lines 34 to 41
  only observes and is left out.
\<close>

datatype request =
    GetBooks jsint jsint
  | Search jsval jsval
  | GetBook jsint
  | PostBook "string option" jsval jsval jsval
  | PutBook "string option" jsint jsval jsval jsval
  | DeleteAll "string option"
  | DeleteBook "string option" jsint

fun handle :: "(string \<Rightarrow> string) \<Rightarrow> store \<Rightarrow> request \<Rightarrow> response \<times> store" where
  "handle lc books (GetBooks page limit) = (get_books books page limit, books)"
| "handle lc books (Search qtitle qauthor) = (search_books lc books qtitle qauthor, books)"
| "handle lc books (GetBook paramId) = (get_book books paramId, books)"
| "handle lc books (PostBook token bid btitle bauthor) =
     (case requireAuth token of
        Some r \<Rightarrow> (r, books)
      | None \<Rightarrow> post_book lc books bid btitle bauthor)"
| "handle lc books (PutBook token paramId bodyId btitle bauthor) =
     (case requireAuth token of
        Some r \<Rightarrow> (r, books)
      | None \<Rightarrow> put_book books paramId bodyId btitle bauthor)"
| "handle lc books (DeleteAll token) =
     (case requireAuth token of
        Some r \<Rightarrow> (r, books)
      | None \<Rightarrow>
          (case requireAdmin token of
             Some r \<Rightarrow> (r, books)
           | None \<Rightarrow> delete_all books))"
| "handle lc books (DeleteBook token paramId) =
     (case requireAuth token of
        Some r \<Rightarrow> (r, books)
      | None \<Rightarrow>
          (case requireAdmin token of
             Some r \<Rightarrow> (r, books)
           | None \<Rightarrow> delete_book books paramId))"

text \<open>Requests are handled one after the other; the Store after a sequence of them.\<close>

fun run :: "(string \<Rightarrow> string) \<Rightarrow> store \<Rightarrow> request list \<Rightarrow> store" where
  "run lc books [] = books"
| "run lc books (r # rs) = run lc (snd (handle lc books r)) rs"

section \<open>The rate limiter\<close>

text \<open>
  Lines 47 to 51 configure the limiter and line 53 mounts it on \<^verbatim>\<open>/api/books\<close>, before
  the routes. The three options are the source's; \<^verbatim>\<open>max\<close> is named \<open>max_requests\<close>
  here.
\<close>

definition windowMs :: nat where
  "windowMs = 60 * 1000"

definition max_requests :: nat where
  "max_requests = 15"

definition message :: payload where
  "message = Error ''Too many requests. Slow down.''"

text \<open>
  What the limiter remembers of a client (identified by its network origin): the time in
  milliseconds at which the client's current window began, and the requests counted in
  it.
\<close>

type_synonym client = string

type_synonym hits = "client \<Rightarrow> (nat \<times> nat) option"

text \<open>
  Modelled from the spec: the counting of \<^verbatim>\<open>express-rate-limit\<close>, a library whose code
  is not among the sources. Section 4.4 of the specification describes a fixed window
  per client: a client's window starts with its first request and lasts \<open>windowMs\<close>; a
  request after the window has elapsed starts a new window with a fresh counter; a request
  that takes the counter above \<open>max_requests\<close> is answered at once with the fixed message
  and a too-many-requests status (429), and nothing downstream runs.
\<close>

definition limiter :: "hits \<Rightarrow> client \<Rightarrow> nat \<Rightarrow> response option \<times> hits" where
  "limiter h c now =
     (let (start, n) =
            (case h c of
               None \<Rightarrow> (now, 0)
             | Some (s, k) \<Rightarrow> if now < s + windowMs then (s, k) else (now, 0))
      in (if max_requests < n + 1 then Some (Response 429 message) else None,
          h(c \<mapsto> (start, n + 1))))"

text \<open>
  The server: the limiter's memory and the Store. Every route of \<open>handle\<close> is under
  \<^verbatim>\<open>/api/books\<close>, so each request meets the limiter first and reaches its route only when
  the limiter calls \<^verbatim>\<open>next()\<close>. An event is a client, the time of its request and the
  request.
\<close>

type_synonym server = "hits \<times> store"

type_synonym event = "client \<times> nat \<times> request"

fun serve :: "(string \<Rightarrow> string) \<Rightarrow> server \<Rightarrow> event \<Rightarrow> response \<times> server" where
  "serve lc (h, books) (c, now, req) =
     (case limiter h c now of
        (Some r, h') \<Rightarrow> (r, (h', books))
      | (None, h') \<Rightarrow>
          (case handle lc books req of (r, books') \<Rightarrow> (r, (h', books'))))"

fun serve_all :: "(string \<Rightarrow> string) \<Rightarrow> server \<Rightarrow> event list \<Rightarrow> response list \<times> server" where
  "serve_all lc sv [] = ([], sv)"
| "serve_all lc sv (ev # evs) =
     (case serve lc sv ev of
        (r, sv') \<Rightarrow> (case serve_all lc sv' evs of (rs, sv'') \<Rightarrow> (r # rs, sv'')))"

text \<open>The responses of the routes alone, without the limiter in front.\<close>

fun responses :: "(string \<Rightarrow> string) \<Rightarrow> store \<Rightarrow> request list \<Rightarrow> response list" where
  "responses lc books [] = []"
| "responses lc books (r # rs) = fst (handle lc books r) # responses lc (snd (handle lc books r)) rs"

section \<open>The vocabulary of the specification\<close>

text \<open>
  The specification's Book has a string as title and as author. The handlers store
  whatever truthy value the body carries, so this is a property a Store may or may not
  have.
\<close>

fun is_string :: "json \<Rightarrow> bool" where
  "is_string (JStr s) = True"
| "is_string v = False"

definition string_fields :: "book \<Rightarrow> bool" where
  "string_fields b = (is_string (title b) \<and> is_string (author b))"

text \<open>
  A query parameter or body field counts as given when it is present and not empty.
\<close>

definition given :: "string option \<Rightarrow> bool" where
  "given q = (q \<noteq> None \<and> q \<noteq> Some [])"

text \<open>
  Case-insensitive equality and containment of a string \<open>q\<close> and a stored field: the two
  are equal after \<open>lc\<close>, or the field after \<open>lc\<close> contains \<open>q\<close> after \<open>lc\<close>.
  \<open>sublist q s\<close> is the library's contiguous-substring relation:
  \<open>s = ps @ q @ ss\<close> for some \<open>ps\<close> and \<open>ss\<close>.
\<close>

fun ci_equal :: "(string \<Rightarrow> string) \<Rightarrow> string \<Rightarrow> json \<Rightarrow> bool" where
  "ci_equal lc q (JStr s) = (lc q = lc s)"
| "ci_equal lc q v = False"

fun ci_substring :: "(string \<Rightarrow> string) \<Rightarrow> string \<Rightarrow> json \<Rightarrow> bool" where
  "ci_substring lc q (JStr s) = sublist (lc q) (lc s)"
| "ci_substring lc q v = False"

definition ci_match :: "(string \<Rightarrow> string) \<Rightarrow> string option \<Rightarrow> string option \<Rightarrow> book \<Rightarrow> bool" where
  "ci_match lc qtitle qauthor b =
     ((if given qtitle then ci_substring lc (the qtitle) (title b) else True) \<and>
      (if given qauthor then ci_substring lc (the qauthor) (author b) else True))"

text \<open>
  A client has no open window at time \<open>now\<close>: the limiter has not seen it, or the window
  it remembers has elapsed.
\<close>

definition window_over :: "hits \<Rightarrow> client \<Rightarrow> nat \<Rightarrow> bool" where
  "window_over h c now =
     (case h c of None \<Rightarrow> True | Some (s, k) \<Rightarrow> s + windowMs \<le> now)"

section \<open>Lemmas on the array methods and on strings\<close>

text \<open>\<open>includes_str\<close> is the library's contiguous-substring relation.\<close>

lemma starts_with_prefix: "starts_with s q = prefix q s"
  by (induction s q rule: starts_with.induct) auto

lemma includes_str_sublist: "includes_str s q = sublist q s"
proof (induction s)
  case Nil
  show ?case by simp
next
  case (Cons d s)
  show ?case
  proof (cases q)
    case Nil
    then show ?thesis by simp
  next
    case (Cons c q')
    then show ?thesis
      using Cons.IH by (simp add: starts_with_prefix sublist_Cons_right del: starts_with.simps)
  qed
qed

text \<open>What \<open>findIndex\<close> returns: the first position at which the callback is true.\<close>

lemma findIndex_None: "findIndex P xs = None \<longleftrightarrow> (\<forall>x\<in>set xs. \<not> P x)"
  by (induction xs) auto

lemma findIndex_Some:
  "findIndex P xs = Some i \<Longrightarrow> i < length xs \<and> P (xs ! i) \<and> (\<forall>j<i. \<not> P (xs ! j))"
proof (induction xs arbitrary: i)
  case Nil
  then show ?case by simp
next
  case (Cons x xs)
  show ?case
  proof (cases "P x")
    case True
    with Cons.prems show ?thesis by simp
  next
    case False
    with Cons.prems obtain k where k: "findIndex P xs = Some k" "i = Suc k"
      by auto
    from Cons.IH[OF k(1)] False k(2) show ?thesis
      by (auto simp: less_Suc_eq_0_disj)
  qed
qed

text \<open>
  A callback that throws on no element of the array makes \<open>find_js\<close> and \<open>filter_js\<close> the
  pure \<open>List.find\<close> and \<open>filter\<close>; the two callbacks of the source are such on Books whose
  title and author are strings.
\<close>

lemma same_title_author_typed:
  "string_fields b \<Longrightarrow>
   same_title_author lc (JStr t) (JStr a) b = Inr (ci_equal lc t (title b) \<and> ci_equal lc a (author b))"
  by (cases "title b"; cases "author b") (auto simp: string_fields_def same_title_author_def)

lemma find_js_pure:
  "\<forall>x\<in>set xs. f x = Inr (P x) \<Longrightarrow> find_js f xs = Inr (List.find P xs)"
  by (induction xs) auto

lemma filter_js_pure:
  "\<forall>x\<in>set xs. f x = Inr (P x) \<Longrightarrow> filter_js f xs = Inr (filter P xs)"
  by (induction xs) auto

lemma matches_field_typed:
  "is_string v \<Longrightarrow>
   matches_field lc v (map_option JStr q) = Inr (if given q then ci_substring lc (the q) v else True)"
  by (cases v; cases q) (auto simp: matches_field_def given_def includes_str_sublist)

lemma search_match_typed:
  "string_fields b \<Longrightarrow>
   search_match lc (map_option JStr qtitle) (map_option JStr qauthor) b =
     Inr (ci_match lc qtitle qauthor b)"
  by (simp add: search_match_def matches_field_typed string_fields_def ci_match_def)

lemma truthy_string: "truthy (map_option JStr q) = given q"
  by (cases q) (auto simp: given_def)

section \<open>Lemmas on the handlers\<close>

lemma find_id_None:
  "(\<forall>b\<in>set books. paramId \<noteq> Some (book_id b)) \<Longrightarrow>
   List.find (id_is paramId) books = None"
  by (simp add: find_None_iff id_is_def)

lemma findIndex_id_None:
  "(\<forall>b\<in>set books. paramId \<noteq> Some (book_id b)) \<Longrightarrow>
   findIndex (id_is paramId) books = None"
  by (simp add: findIndex_None id_is_def)

lemma findIndex_id_Some:
  assumes "b \<in> set books"
  shows "\<exists>i<length books. findIndex (id_is (Some (book_id b))) books = Some i \<and>
           book_id (books ! i) = book_id b \<and> (\<forall>j<i. book_id (books ! j) \<noteq> book_id b)"
proof -
  from assms have "findIndex (id_is (Some (book_id b))) books \<noteq> None"
    by (auto simp: findIndex_None id_is_def)
  then obtain i where i: "findIndex (id_is (Some (book_id b))) books = Some i"
    by auto
  from findIndex_Some[OF i] show ?thesis
    using i by (auto simp: id_is_def)
qed

lemma find_duplicate_typed:
  assumes "list_all string_fields books"
  shows "find_js (same_title_author lc (JStr t) (JStr a)) books =
         Inr (List.find (\<lambda>b. ci_equal lc t (title b) \<and> ci_equal lc a (author b)) books)"
  using assms by (intro find_js_pure) (simp add: list_all_iff same_title_author_typed)

lemma create_conflict:
  assumes typed: "list_all string_fields books"
    and valid: "t \<noteq> []" "a \<noteq> []"
    and dup: "\<exists>b\<in>set books. ci_equal lc t (title b) \<and> ci_equal lc a (author b)"
  shows "post_book lc books None (Some (JStr t)) (Some (JStr a)) =
         (Response 409 (Error ''A book with the same title and author already exists''), books)"
proof -
  let ?same = "\<lambda>b. ci_equal lc t (title b) \<and> ci_equal lc a (author b)"
  from dup have "List.find ?same books \<noteq> None"
    by (auto simp: find_None_iff)
  then obtain d where "List.find ?same books = Some d"
    by auto
  then show ?thesis
    using valid by (simp add: post_book_def find_duplicate_typed[OF typed])
qed

lemma same_title_author_lower:
  "lc t' = lc t \<Longrightarrow> lc a' = lc a \<Longrightarrow>
   same_title_author lc (JStr t') (JStr a') = same_title_author lc (JStr t) (JStr a)"
  by (rule ext) (simp add: same_title_author_def split: sum.splits)

lemma find_js_append:
  "find_js f (xs @ ys) =
     (case find_js f xs of
        Inl e \<Rightarrow> Inl e
      | Inr (Some x) \<Rightarrow> Inr (Some x)
      | Inr None \<Rightarrow> find_js f ys)"
  by (induction xs) (auto split: sum.splits bool.splits)

lemma create_twice:
  assumes first: "post_book lc books bid (Some (JStr t)) (Some (JStr a)) = (Response 201 p, books')"
    and second: "t' \<noteq> []" "a' \<noteq> []" "lc t' = lc t" "lc a' = lc a"
  shows "post_book lc books' None (Some (JStr t')) (Some (JStr a')) =
         (Response 409 (Error ''A book with the same title and author already exists''), books')"
proof -
  let ?f = "same_title_author lc (JStr t) (JStr a)"
  let ?new = "\<lparr>book_id = int (length books) + 1, title = JStr t, author = JStr a\<rparr>"
  from first have ok: "find_js ?f books = Inr None" "books' = books @ [?new]"
    by (auto simp: post_book_def error_handler_def Let_def
          split: if_splits sum.splits option.splits)
  have "find_js ?f books' = Inr (Some ?new)"
    by (simp add: ok find_js_append same_title_author_def)
  then show ?thesis
    using second by (simp add: post_book_def same_title_author_lower[where lc = lc and t' = t' and t = t and a' = a' and a = a])
qed

lemma filter_js_typed:
  assumes "list_all string_fields books"
  shows "filter_js (search_match lc (map_option JStr qtitle) (map_option JStr qauthor)) books =
         Inr (filter (ci_match lc qtitle qauthor) books)"
  using assms by (intro filter_js_pure) (simp add: list_all_iff search_match_typed)

section \<open>Lemmas on the limiter\<close>

text \<open>
  The limiter's two cases, and a client's window as a whole: while the counter stays
  within \<open>max_requests\<close>, the client's requests are answered by their routes one after the
  other. The request of one client leaves the counter of every other client alone.
\<close>

lemma limiter_fresh:
  "window_over h c now \<Longrightarrow> limiter h c now = (None, h(c \<mapsto> (now, 1)))"
  by (auto simp: limiter_def window_over_def max_requests_def split: option.splits)

lemma limiter_live:
  "h c = Some (s, k) \<Longrightarrow> now < s + windowMs \<Longrightarrow>
   limiter h c now =
     (if max_requests < k + 1 then Some (Response 429 message) else None,
      h(c \<mapsto> (s, k + 1)))"
  by (simp add: limiter_def)

lemma limiter_other_client:
  "c' \<noteq> c \<Longrightarrow> snd (limiter h c' now) c = h c"
  by (simp add: limiter_def Let_def split: prod.splits)

lemma serve_all_append:
  "serve_all lc sv (evs @ evs') =
     (case serve_all lc sv evs of
        (rs, sv') \<Rightarrow> (case serve_all lc sv' evs' of (rs', sv'') \<Rightarrow> (rs @ rs', sv'')))"
  by (induction evs arbitrary: sv) (auto split: prod.splits)

lemma serve_all_window:
  assumes "h c = Some (s, k)"
    and "\<forall>(t, r)\<in>set trs. t < s + windowMs"
    and "k + length trs \<le> max_requests"
  shows "serve_all lc (h, books) (map (\<lambda>(t, r). (c, t, r)) trs) =
         (responses lc books (map snd trs),
          (h(c \<mapsto> (s, k + length trs)), run lc books (map snd trs)))"
  using assms
proof (induction trs arbitrary: h k books)
  case Nil
  then show ?case by (simp add: fun_upd_idem)
next
  case (Cons tr trs)
  obtain t r where tr: "tr = (t, r)" by (cases tr)
  from Cons.prems tr have lim: "limiter h c t = (None, h(c \<mapsto> (s, k + 1)))"
    by (simp add: limiter_live)
  let ?h = "h(c \<mapsto> (s, k + 1))"
  have "serve_all lc (?h, snd (handle lc books r)) (map (\<lambda>(t, r). (c, t, r)) trs) =
         (responses lc (snd (handle lc books r)) (map snd trs),
          (?h(c \<mapsto> (s, (k + 1) + length trs)), run lc (snd (handle lc books r)) (map snd trs)))"
    using Cons.prems by (intro Cons.IH) auto
  then show ?case
    using lim tr by (auto simp: case_prod_beta fun_eq_iff)
qed

section \<open>Identifiers after a deletion\<close>

text \<open>
  Claim C1 says that at every reachable state of the Store no two Books have the same id.
  The create handler assigns \<^verbatim>\<open>books.length + 1\<close>, so once a Book has been deleted the
  next create repeats an id that is still in the Store: from the initial Store, deleting
  Book 1 and creating a Book leaves two Books with id 2.
\<close>

theorem duplicate_id_after_delete_then_create:
  "run ascii_lower books0
     [DeleteBook (Some ''Bearer admin-token'') (Some 1),
      PostBook (Some ''Bearer user-token'') None
        (Some (JStr ''Dune'')) (Some (JStr ''Frank Herbert''))] =
   [\<lparr>book_id = 2, title = JStr ''The Hobbit'', author = JStr ''J.R.R. Tolkien''\<rparr>,
    \<lparr>book_id = 2, title = JStr ''Dune'', author = JStr ''Frank Herbert''\<rparr>] \<and>
   \<not> distinct (map book_id
     (run ascii_lower books0
        [DeleteBook (Some ''Bearer admin-token'') (Some 1),
         PostBook (Some ''Bearer user-token'') None
           (Some (JStr ''Dune'')) (Some (JStr ''Frank Herbert''))]))"
  by code_simp

text \<open>
  Claim C2 says that a valid create returns an id strictly greater than every id assigned
  before. Id 2 is assigned at process start; after Book 2 has been deleted, a valid create
  (status 201) is assigned id 2 again.
\<close>

theorem create_reuses_assigned_id:
  "map book_id books0 = [1, 2] \<and>
   handle ascii_lower (run ascii_lower books0 [DeleteBook (Some ''Bearer admin-token'') (Some 2)])
     (PostBook (Some ''Bearer user-token'') None
        (Some (JStr ''Dune'')) (Some (JStr ''Frank Herbert''))) =
   (Response 201
      (OneBook \<lparr>book_id = 2, title = JStr ''Dune'', author = JStr ''Frank Herbert''\<rparr>),
    [\<lparr>book_id = 1, title = JStr ''1984'', author = JStr ''George Orwell''\<rparr>,
     \<lparr>book_id = 2, title = JStr ''Dune'', author = JStr ''Frank Herbert''\<rparr>])"
  by code_simp

section \<open>A falsy id in the body\<close>

text \<open>
  Claim C3 says that a create whose body contains an \<^verbatim>\<open>id\<close> field, whatever its value
  and 0 included, fails with 400 and leaves the Store unchanged. The handler tests
  \<^verbatim>\<open>if (id)\<close>, which 0 does not pass: the body
  \<^verbatim>\<open>{ id: 0, title: 'Dune', author: 'Frank Herbert' }\<close> is answered 201 and the Book is
  appended.
\<close>

theorem create_accepts_id_zero:
  "handle ascii_lower books0
     (PostBook (Some ''Bearer user-token'') (Some (JNum 0))
        (Some (JStr ''Dune'')) (Some (JStr ''Frank Herbert''))) =
   (Response 201
      (OneBook \<lparr>book_id = 3, title = JStr ''Dune'', author = JStr ''Frank Herbert''\<rparr>),
    books0 @ [\<lparr>book_id = 3, title = JStr ''Dune'', author = JStr ''Frank Herbert''\<rparr>])"
  by code_simp

text \<open>
  Claim C4 says that an update whose body \<^verbatim>\<open>id\<close> differs from the path id, 0 included,
  fails with 400 and leaves the targeted Book unchanged. The handler tests
  \<^verbatim>\<open>bodyId && bodyId !== paramId\<close>, which is false for a body id of 0: the request
  \<^verbatim>\<open>PUT /api/books/1\<close> with body \<^verbatim>\<open>{ id: 0, title: 'Animal Farm' }\<close> is answered 200 and
  the title of Book 1 is replaced.
\<close>

theorem update_accepts_body_id_zero:
  "handle ascii_lower books0
     (PutBook (Some ''Bearer user-token'') (Some 1) (Some (JNum 0))
        (Some (JStr ''Animal Farm'')) None) =
   (Response 200
      (OneBook \<lparr>book_id = 1, title = JStr ''Animal Farm'', author = JStr ''George Orwell''\<rparr>),
    [\<lparr>book_id = 1, title = JStr ''Animal Farm'', author = JStr ''George Orwell''\<rparr>,
     \<lparr>book_id = 2, title = JStr ''The Hobbit'', author = JStr ''J.R.R. Tolkien''\<rparr>])"
  by code_simp

section \<open>The duplicate check of create\<close>

text \<open>
  Claim C5 says that every create whose title and author equal, up to case, those of a
  Book of the Store is answered 409. Two requests show otherwise. After
  \<^verbatim>\<open>PUT /api/books/1\<close> with body \<^verbatim>\<open>{ title: 5 }\<close> the first Book has a number as
  title; a create that repeats the second Book then throws in the duplicate check at the
  first Book and is answered 500. And a create that repeats a Book but carries an
  \<^verbatim>\<open>id\<close> is answered 400 by the check before.
\<close>

theorem create_duplicate_counterexample:
  "run ascii_lower books0
     [PutBook (Some ''Bearer user-token'') (Some 1) None (Some (JNum 5)) None] =
     [\<lparr>book_id = 1, title = JNum 5, author = JStr ''George Orwell''\<rparr>,
      \<lparr>book_id = 2, title = JStr ''The Hobbit'', author = JStr ''J.R.R. Tolkien''\<rparr>] \<and>
   ci_equal ascii_lower ''the hobbit'' (JStr ''The Hobbit'') \<and>
   ci_equal ascii_lower ''j.r.r. tolkien'' (JStr ''J.R.R. Tolkien'') \<and>
   handle ascii_lower
     [\<lparr>book_id = 1, title = JNum 5, author = JStr ''George Orwell''\<rparr>,
      \<lparr>book_id = 2, title = JStr ''The Hobbit'', author = JStr ''J.R.R. Tolkien''\<rparr>]
     (PostBook (Some ''Bearer user-token'') None
        (Some (JStr ''the hobbit'')) (Some (JStr ''j.r.r. tolkien''))) =
   (Response 500 (Error ''Something went wrong on the server.''),
     [\<lparr>book_id = 1, title = JNum 5, author = JStr ''George Orwell''\<rparr>,
      \<lparr>book_id = 2, title = JStr ''The Hobbit'', author = JStr ''J.R.R. Tolkien''\<rparr>]) \<and>
   handle ascii_lower books0
     (PostBook (Some ''Bearer user-token'') (Some (JNum 7))
        (Some (JStr ''1984'')) (Some (JStr ''George Orwell''))) =
   (Response 400 (Error ''ID must not be provided when creating a book''), books0)"
  by code_simp

text \<open>
  Claim C5, amended, for whatever function \<open>lc\<close> the method \<^verbatim>\<open>toLowerCase\<close> is. In a
  Store whose Books all have strings as title and author, a create that has passed
  \<^verbatim>\<open>requireAuth\<close>, carries no \<^verbatim>\<open>id\<close> and has a non-empty string as title and as author is
  answered 409 when both equal, after \<open>lc\<close>, those of a Book of the Store, and the Store is
  unchanged. And in any Store: when a create without \<^verbatim>\<open>id\<close> and with a string title and
  author has succeeded, a second create without \<^verbatim>\<open>id\<close> whose non-empty title and author
  equal the first's after \<open>lc\<close> is answered 409 and changes nothing.
\<close>

theorem create_duplicate_conflict:
  "(list_all string_fields books \<and> t \<noteq> [] \<and> a \<noteq> [] \<and>
    (\<exists>b\<in>set books. ci_equal lc t (title b) \<and> ci_equal lc a (author b)) \<longrightarrow>
      post_book lc books None (Some (JStr t)) (Some (JStr a)) =
        (Response 409 (Error ''A book with the same title and author already exists''), books)) \<and>
   (post_book lc books None (Some (JStr t)) (Some (JStr a)) = (Response 201 p, books') \<and>
    t' \<noteq> [] \<and> a' \<noteq> [] \<and> lc t' = lc t \<and> lc a' = lc a \<longrightarrow>
      post_book lc books' None (Some (JStr t')) (Some (JStr a')) =
        (Response 409 (Error ''A book with the same title and author already exists''), books'))"
proof (intro conjI impI)
  assume "list_all string_fields books \<and> t \<noteq> [] \<and> a \<noteq> [] \<and>
    (\<exists>b\<in>set books. ci_equal lc t (title b) \<and> ci_equal lc a (author b))"
  then show "post_book lc books None (Some (JStr t)) (Some (JStr a)) =
        (Response 409 (Error ''A book with the same title and author already exists''), books)"
    by (intro create_conflict) simp_all
next
  assume "post_book lc books None (Some (JStr t)) (Some (JStr a)) = (Response 201 p, books') \<and>
    t' \<noteq> [] \<and> a' \<noteq> [] \<and> lc t' = lc t \<and> lc a' = lc a"
  then show "post_book lc books' None (Some (JStr t')) (Some (JStr a')) =
        (Response 409 (Error ''A book with the same title and author already exists''), books')"
    by (intro create_twice[where bid = None and p = p and books = books and t = t and a = a])
      simp_all
qed

text \<open>
  Claim C5 on the initial Store and ASCII strings: a repeat of The Hobbit in another case,
  and a repeat of a Book that has just been created.
\<close>

theorem create_duplicate_conflict_witness:
  "post_book ascii_lower books0 None
     (Some (JStr ''the hobbit'')) (Some (JStr ''J.R.R. TOLKIEN'')) =
     (Response 409 (Error ''A book with the same title and author already exists''), books0) \<and>
   post_book ascii_lower
     (books0 @ [\<lparr>book_id = 3, title = JStr ''Dune'', author = JStr ''Frank Herbert''\<rparr>])
     None (Some (JStr ''DUNE'')) (Some (JStr ''frank herbert'')) =
     (Response 409 (Error ''A book with the same title and author already exists''),
      books0 @ [\<lparr>book_id = 3, title = JStr ''Dune'', author = JStr ''Frank Herbert''\<rparr>])"
proof -
  let ?dune = "\<lparr>book_id = 3, title = JStr ''Dune'', author = JStr ''Frank Herbert''\<rparr>"
  have typed: "list_all string_fields books0"
    by code_simp
  have dup: "\<exists>b\<in>set books0. ci_equal ascii_lower ''the hobbit'' (title b) \<and>
      ci_equal ascii_lower ''J.R.R. TOLKIEN'' (author b)"
    by code_simp
  have first: "post_book ascii_lower books0 None
      (Some (JStr ''Dune'')) (Some (JStr ''Frank Herbert'')) =
      (Response 201 (OneBook ?dune), books0 @ [?dune])"
    by code_simp
  have same: "ascii_lower ''DUNE'' = ascii_lower ''Dune''"
    "ascii_lower ''frank herbert'' = ascii_lower ''Frank Herbert''"
    by code_simp+
  from create_duplicate_conflict [where lc = ascii_lower and books = books0
      and t = "''the hobbit''" and a = "''J.R.R. TOLKIEN''"]
    typed dup
  have one: "post_book ascii_lower books0 None
     (Some (JStr ''the hobbit'')) (Some (JStr ''J.R.R. TOLKIEN'')) =
     (Response 409 (Error ''A book with the same title and author already exists''), books0)"
    by simp
  from create_duplicate_conflict [where lc = ascii_lower and books = books0
      and t = "''Dune''" and a = "''Frank Herbert''" and p = "OneBook ?dune"
      and books' = "books0 @ [?dune]" and t' = "''DUNE''" and a' = "''frank herbert''"]
    first same
  have two: "post_book ascii_lower (books0 @ [?dune])
     None (Some (JStr ''DUNE'')) (Some (JStr ''frank herbert'')) =
     (Response 409 (Error ''A book with the same title and author already exists''),
      books0 @ [?dune])"
    by simp
  from one two show ?thesis ..
qed

section \<open>The fields an update keeps\<close>

text \<open>
  Claim C6 says that every update that targets the id of a Book is answered 200 with the
  resulting Book. The handler first compares the body's \<^verbatim>\<open>id\<close> with the path id: the
  request \<^verbatim>\<open>PUT /api/books/1\<close> with body \<^verbatim>\<open>{ id: 2, title: 'Animal Farm' }\<close> targets
  Book 1 and is answered 400, with the Store as before.
\<close>

theorem update_guard_counterexample:
  "handle ascii_lower books0
     (PutBook (Some ''Bearer user-token'') (Some 1) (Some (JNum 2))
        (Some (JStr ''Animal Farm'')) None) =
   (Response 400 (Error ''Updating book ID is not allowed.''), books0)"
  by code_simp

text \<open>
  Claim C6, amended: an update that targets the id of a Book of the Store and whose body
  \<^verbatim>\<open>id\<close> is absent or equal to the path id is answered 200 with the first Book of that
  id as it is afterwards: its title is the body's title when that is truthy and the stored
  title otherwise (so an empty string or an absent field keeps it), likewise its author;
  its id and every other Book stay as they were.
\<close>

theorem update_keeps_falsy_fields:
  assumes "b \<in> set books"
    and "paramId = Some (book_id b)"
    and "bodyId = None \<or> bodyId = Some (JNum (of_int (book_id b)))"
  shows "\<exists>i<length books.
           book_id (books ! i) = book_id b \<and>
           (\<forall>j<i. book_id (books ! j) \<noteq> book_id b) \<and>
           put_book books paramId bodyId btitle bauthor =
             (Response 200
                (OneBook ((books ! i)
                   \<lparr>title := (if truthy btitle then the btitle else title (books ! i)),
                    author := (if truthy bauthor then the bauthor else author (books ! i))\<rparr>)),
              books[i := (books ! i)
                   \<lparr>title := (if truthy btitle then the btitle else title (books ! i)),
                    author := (if truthy bauthor then the bauthor else author (books ! i))\<rparr>])"
proof -
  from findIndex_id_Some[OF assms(1)] obtain i where i: "i < length books"
    "findIndex (id_is (Some (book_id b))) books = Some i"
    "book_id (books ! i) = book_id b" "\<forall>j<i. book_id (books ! j) \<noteq> book_id b"
    by blast
  have "put_book books paramId bodyId btitle bauthor =
             (Response 200
                (OneBook ((books ! i)
                   \<lparr>title := (if truthy btitle then the btitle else title (books ! i)),
                    author := (if truthy bauthor then the bauthor else author (books ! i))\<rparr>)),
              books[i := (books ! i)
                   \<lparr>title := (if truthy btitle then the btitle else title (books ! i)),
                    author := (if truthy bauthor then the bauthor else author (books ! i))\<rparr>])"
    using assms(2,3) i(2) by (auto simp: put_book_def Let_def)
  with i show ?thesis by blast
qed

text \<open>
  Claim C6 on the initial Store: an update of Book 1 whose body repeats the id and has an
  empty title and a new author keeps the title and replaces the author.
\<close>

theorem update_keeps_falsy_fields_witness:
  "put_book books0 (Some 1) (Some (JNum 1)) (Some (JStr [])) (Some (JStr ''Eric Blair'')) =
     (Response 200 (OneBook \<lparr>book_id = 1, title = JStr ''1984'', author = JStr ''Eric Blair''\<rparr>),
      [\<lparr>book_id = 1, title = JStr ''1984'', author = JStr ''Eric Blair''\<rparr>,
       \<lparr>book_id = 2, title = JStr ''The Hobbit'', author = JStr ''J.R.R. Tolkien''\<rparr>])"
proof -
  have m: "hd books0 \<in> set books0" and p: "Some 1 = Some (book_id (hd books0))"
    by (simp_all add: books0_def)
  have g: "Some (JNum 1) = None \<or> Some (JNum 1) = Some (JNum (of_int (book_id (hd books0))))"
    by (simp add: books0_def)
  from update_keeps_falsy_fields [OF m p g, of "Some (JStr [])" "Some (JStr ''Eric Blair'')"]
  obtain i where i: "i < length books0" "book_id (books0 ! i) = book_id (hd books0)"
    and r: "put_book books0 (Some 1) (Some (JNum 1)) (Some (JStr [])) (Some (JStr ''Eric Blair'')) =
             (Response 200
                (OneBook ((books0 ! i)
                   \<lparr>title := (if truthy (Some (JStr [])) then the (Some (JStr [])) else title (books0 ! i)),
                    author := (if truthy (Some (JStr ''Eric Blair'')) then the (Some (JStr ''Eric Blair'')) else author (books0 ! i))\<rparr>)),
              books0[i := (books0 ! i)
                   \<lparr>title := (if truthy (Some (JStr [])) then the (Some (JStr [])) else title (books0 ! i)),
                    author := (if truthy (Some (JStr ''Eric Blair'')) then the (Some (JStr ''Eric Blair'')) else author (books0 ! i))\<rparr>])"
    by blast
  from i have "i = 0"
    by (auto simp: books0_def less_Suc_eq)
  with r show ?thesis
    by (simp add: books0_def)
qed

section \<open>Ids that no Book has\<close>

text \<open>
  Claim C7: when no Book of the Store has the id of the request (or the path parameter
  parses to \<^verbatim>\<open>NaN\<close>), get-by-id answers 404; so does an update that has passed
  \<^verbatim>\<open>requireAuth\<close> and the body-id check, and so does a delete-one that has passed
  \<^verbatim>\<open>requireAuth\<close> and \<^verbatim>\<open>requireAdmin\<close>. The Store is the same afterwards.
\<close>

theorem unknown_id_not_found:
  assumes "\<forall>b\<in>set books. paramId \<noteq> Some (book_id b)"
  shows "handle lc books (GetBook paramId) = (Response 404 (Error ''Book not found''), books) \<and>
         (requireAuth token = None \<and> \<not> (truthy bodyId \<and> strict_neq bodyId paramId) \<longrightarrow>
            handle lc books (PutBook token paramId bodyId btitle bauthor) =
              (Response 404 (Error ''Book not found''), books)) \<and>
         (requireAuth admin = None \<and> requireAdmin admin = None \<longrightarrow>
            handle lc books (DeleteBook admin paramId) =
              (Response 404 (Error ''Book not found''), books))"
  using assms
  by (simp add: get_book_def put_book_def delete_book_def find_id_None findIndex_id_None)

text \<open>
  Claim C7 on the initial Store: id 7 and a path parameter that is not a number.
\<close>

theorem unknown_id_not_found_witness:
  "handle ascii_lower books0 (GetBook (Some 7)) = (Response 404 (Error ''Book not found''), books0) \<and>
   handle ascii_lower books0 (PutBook (Some ''Bearer user-token'') (Some 7) (Some (JNum 7)) (Some (JStr ''Emma'')) None) =
     (Response 404 (Error ''Book not found''), books0) \<and>
   handle ascii_lower books0 (DeleteBook (Some ''Bearer admin-token'') (Some 7)) =
     (Response 404 (Error ''Book not found''), books0) \<and>
   handle ascii_lower books0 (GetBook None) = (Response 404 (Error ''Book not found''), books0)"
proof -
  have a: "\<forall>b\<in>set books0. Some 7 \<noteq> Some (book_id b)"
    by (simp add: books0_def)
  have n: "\<forall>b\<in>set books0. None \<noteq> Some (book_id b)"
    by simp
  have g: "requireAuth (Some ''Bearer user-token'') = None"
    "requireAuth (Some ''Bearer admin-token'') = None"
    "requireAdmin (Some ''Bearer admin-token'') = None"
    by (simp_all add: requireAuth_def requireAdmin_def)
  have s: "\<not> (truthy (Some (JNum 7)) \<and> strict_neq (Some (JNum 7)) (Some 7))"
    by simp
  show ?thesis
    using unknown_id_not_found [OF a, where lc = ascii_lower
        and token = "Some ''Bearer user-token''" and bodyId = "Some (JNum 7)"
        and btitle = "Some (JStr ''Emma'')" and bauthor = None
        and admin = "Some ''Bearer admin-token''"]
      unknown_id_not_found [OF n, where lc = ascii_lower and token = None and bodyId = None
        and btitle = None and bauthor = None and admin = None] g s
    by simp
qed

section \<open>Search\<close>

text \<open>
  Claim C8 says that in every Store state a search with matching Books is answered 200
  with them. After \<^verbatim>\<open>PUT /api/books/1\<close> with body \<^verbatim>\<open>{ author: 1949 }\<close> the first Book
  has a number as author; the search \<^verbatim>\<open>?author=tolkien\<close>, which the second Book matches,
  then throws at the first Book and is answered 500.
\<close>

theorem search_counterexample:
  "run ascii_lower books0 [PutBook (Some ''Bearer user-token'') (Some 1) None None (Some (JNum 1949))] =
     [\<lparr>book_id = 1, title = JStr ''1984'', author = JNum 1949\<rparr>,
      \<lparr>book_id = 2, title = JStr ''The Hobbit'', author = JStr ''J.R.R. Tolkien''\<rparr>] \<and>
   ci_substring ascii_lower ''tolkien'' (JStr ''J.R.R. Tolkien'') \<and>
   search_books ascii_lower
     [\<lparr>book_id = 1, title = JStr ''1984'', author = JNum 1949\<rparr>,
      \<lparr>book_id = 2, title = JStr ''The Hobbit'', author = JStr ''J.R.R. Tolkien''\<rparr>]
     None (Some (JStr ''tolkien'')) =
   Response 500 (Error ''Something went wrong on the server.'')"
  by code_simp

text \<open>
  Claim C8, amended, for whatever function \<open>lc\<close> the method \<^verbatim>\<open>toLowerCase\<close> is. In every
  Store a search in which neither \<^verbatim>\<open>title\<close> nor \<^verbatim>\<open>author\<close> is given (each is absent or
  falsy, as the empty string is) is answered 400. In a Store whose Books all have strings
  as title and author, a search with strings as parameters, at least one of them given, is
  answered 404 when no Book matches and otherwise 200 with exactly the matching Books in
  the order of the Store; a Book matches when, for each parameter that is given, the field
  after \<open>lc\<close> contains the parameter after \<open>lc\<close> as a contiguous substring.
\<close>

theorem search_result:
  "(\<not> truthy qt \<and> \<not> truthy qa \<longrightarrow>
      search_books lc books qt qa =
        Response 400 (Error ''Please provide at least a title or author for search'')) \<and>
   (list_all string_fields books \<longrightarrow>
      search_books lc books (map_option JStr qtitle) (map_option JStr qauthor) =
        (if \<not> given qtitle \<and> \<not> given qauthor
         then Response 400 (Error ''Please provide at least a title or author for search'')
         else if filter (ci_match lc qtitle qauthor) books = []
         then Response 404 (Error ''Books not found for search'')
         else Response 200 (Books (filter (ci_match lc qtitle qauthor) books))))"
  by (simp add: search_books_def truthy_string filter_js_typed)

text \<open>
  Claim C8 on the initial Store and ASCII strings: no parameter, a title in another case,
  a title and an author together, and a title that no Book contains.
\<close>

theorem search_result_witness:
  "search_books ascii_lower books0 None None =
     Response 400 (Error ''Please provide at least a title or author for search'') \<and>
   search_books ascii_lower books0 (Some (JStr ''hobbit'')) None =
     Response 200 (Books [\<lparr>book_id = 2, title = JStr ''The Hobbit'', author = JStr ''J.R.R. Tolkien''\<rparr>]) \<and>
   search_books ascii_lower books0 (Some (JStr ''98'')) (Some (JStr ''ORWELL'')) =
     Response 200 (Books [\<lparr>book_id = 1, title = JStr ''1984'', author = JStr ''George Orwell''\<rparr>]) \<and>
   search_books ascii_lower books0 (Some (JStr ''dune'')) None =
     Response 404 (Error ''Books not found for search'')"
proof -
  have typed: "list_all string_fields books0"
    by code_simp
  have f1: "filter (ci_match ascii_lower (Some ''hobbit'') None) books0 =
      [\<lparr>book_id = 2, title = JStr ''The Hobbit'', author = JStr ''J.R.R. Tolkien''\<rparr>]"
    by code_simp
  have f2: "filter (ci_match ascii_lower (Some ''98'') (Some ''ORWELL'')) books0 =
      [\<lparr>book_id = 1, title = JStr ''1984'', author = JStr ''George Orwell''\<rparr>]"
    by code_simp
  have f3: "filter (ci_match ascii_lower (Some ''dune'') None) books0 = []"
    by code_simp
  have g: "given (Some ''hobbit'')" "given (Some ''dune'')" "given (Some ''98'')"
    by (simp_all add: given_def)
  have w1: "search_books ascii_lower books0 None None =
     Response 400 (Error ''Please provide at least a title or author for search'')"
    using search_result [where lc = ascii_lower and qt = None and qa = None
        and books = books0 and qtitle = None and qauthor = None] by simp
  have w2: "search_books ascii_lower books0 (Some (JStr ''hobbit'')) None =
     Response 200 (Books [\<lparr>book_id = 2, title = JStr ''The Hobbit'', author = JStr ''J.R.R. Tolkien''\<rparr>])"
    using search_result [where lc = ascii_lower and qt = None and qa = None
        and books = books0 and qtitle = "Some ''hobbit''" and qauthor = None] typed g
    by (simp add: f1)
  have w3: "search_books ascii_lower books0 (Some (JStr ''98'')) (Some (JStr ''ORWELL'')) =
     Response 200 (Books [\<lparr>book_id = 1, title = JStr ''1984'', author = JStr ''George Orwell''\<rparr>])"
    using search_result [where lc = ascii_lower and qt = None and qa = None
        and books = books0 and qtitle = "Some ''98''" and qauthor = "Some ''ORWELL''"] typed g
    by (simp add: f2)
  have w4: "search_books ascii_lower books0 (Some (JStr ''dune'')) None =
     Response 404 (Error ''Books not found for search'')"
    using search_result [where lc = ascii_lower and qt = None and qa = None
        and books = books0 and qtitle = "Some ''dune''" and qauthor = None] typed g
    by (simp add: f3)
  from w1 w2 w3 w4 show ?thesis by simp
qed

section \<open>Sixteen requests in one window\<close>

text \<open>
  Claim C9: a client without an open window sends sixteen requests, the first at \<open>t0\<close>
  and all of them before \<open>t0 + windowMs\<close>, and one more once the window has elapsed. The
  first fifteen are answered by their routes, in sequence on the Store. The sixteenth is
  answered 429 with the fixed message and leaves the Store as the fifteen left it. The
  last one is answered by its route again, and the client's counter is 1 in a window that
  starts with it.
\<close>

theorem sixteenth_request_rejected:
  assumes fresh: "window_over h c t0"
    and others: "length others = 14" "\<forall>(t, r)\<in>set others. t0 \<le> t \<and> t < t0 + windowMs"
    and t_last: "t0 \<le> t_last" "t_last < t0 + windowMs"
    and t_later: "t0 + windowMs \<le> t_later"
  shows "serve_all lc (h, books)
           (map (\<lambda>(t, r). (c, t, r))
              ((t0, first) # others @ [(t_last, sixteenth), (t_later, later)])) =
         (responses lc books (first # map snd others) @
            [Response 429 message, fst (handle lc (run lc books (first # map snd others)) later)],
          (h(c \<mapsto> (t_later, 1)), snd (handle lc (run lc books (first # map snd others)) later)))"
proof -
  let ?h1 = "h(c \<mapsto> (t0, 1))"
  let ?b1 = "snd (handle lc books first)"
  let ?h15 = "?h1(c \<mapsto> (t0, 1 + length others))"
  let ?b15 = "run lc ?b1 (map snd others)"
  have one: "serve lc (h, books) (c, t0, first) = (fst (handle lc books first), (?h1, ?b1))"
    using limiter_fresh[OF fresh] by (simp add: case_prod_beta)
  have window: "serve_all lc (?h1, ?b1) (map (\<lambda>(t, r). (c, t, r)) others) =
      (responses lc ?b1 (map snd others), (?h15, ?b15))"
    using others by (intro serve_all_window) (auto simp: max_requests_def)
  have h15: "?h15 c = Some (t0, 15)"
    using others(1) by simp
  have rejected: "serve lc (?h15, ?b15) (c, t_last, sixteenth) =
      (Response 429 message, (?h15(c \<mapsto> (t0, 16)), ?b15))"
    using limiter_live[where h = "?h15" and c = c and s = t0 and k = 15 and now = t_last]
      h15 t_last(2)
    by (simp add: max_requests_def)
  have over: "window_over (?h15(c \<mapsto> (t0, 16))) c t_later"
    using t_later by (simp add: window_over_def)
  have again: "serve lc (?h15(c \<mapsto> (t0, 16)), ?b15) (c, t_later, later) =
      (fst (handle lc ?b15 later), (h(c \<mapsto> (t_later, 1)), snd (handle lc ?b15 later)))"
    using limiter_fresh[OF over] by (simp add: case_prod_beta)
  show ?thesis
    using one window rejected again
    by (simp add: serve_all_append del: serve.simps)
qed

text \<open>
  Claim C9 on a concrete trace: fifteen list requests, then an admin's delete-all within
  the window, which is rejected, so that the list request after the window still returns
  both Books.
\<close>

theorem sixteenth_request_rejected_witness:
  "serve_all ascii_lower (Map.empty, books0)
     (map (\<lambda>(t, r). (''203.0.113.7'', t, r))
        ((1000, GetBooks (Some 1) (Some 10)) #
         map (\<lambda>t. (t, GetBooks (Some 1) (Some 10)))
           [5000, 9000, 13000, 17000, 21000, 25000, 29000, 33000, 37000, 41000, 45000,
            49000, 53000, 57000] @
         [(60999, DeleteAll (Some ''Bearer admin-token'')),
          (61000, GetBooks (Some 1) (Some 10))])) =
   (replicate 15 (Response 200 (Books books0)) @
      [Response 429 (Error ''Too many requests. Slow down.''), Response 200 (Books books0)],
    (Map.empty(''203.0.113.7'' \<mapsto> (61000, 1)), books0))"
proof -
  let ?others = "map (\<lambda>t. (t, GetBooks (Some 1) (Some 10)))
           [5000, 9000, 13000, 17000, 21000, 25000, 29000, 33000, 37000, 41000, 45000,
            49000, 53000, 57000 :: nat]"
  have fresh: "window_over Map.empty ''203.0.113.7'' 1000"
    by (simp add: window_over_def)
  have len: "length ?others = 14"
    by simp
  have times: "\<forall>(t, r)\<in>set ?others. 1000 \<le> t \<and> t < 1000 + windowMs"
    by (simp add: windowMs_def)
  have t_last: "(1000::nat) \<le> 60999" "60999 < 1000 + windowMs"
    and t_later: "1000 + windowMs \<le> 61000"
    by (simp_all add: windowMs_def)
  have gb: "get_books books0 (Some 1) (Some 10) = Response 200 (Books books0)"
    by code_simp
  have rep: "replicate 15 r = [r, r, r, r, r, r, r, r, r, r, r, r, r, r, r]" for r :: response
    by (simp add: eval_nat_numeral)
  have rs: "responses ascii_lower books0 (GetBooks (Some 1) (Some 10) # map snd ?others) =
      replicate 15 (Response 200 (Books books0))"
    by (simp add: gb rep)
  have st: "run ascii_lower books0 (GetBooks (Some 1) (Some 10) # map snd ?others) = books0"
    by simp
  have last: "handle ascii_lower books0 (GetBooks (Some 1) (Some 10)) = (Response 200 (Books books0), books0)"
    by (simp add: gb)
  show ?thesis
    using sixteenth_request_rejected [OF fresh len times t_last t_later,
        where lc = ascii_lower and books = books0 and first = "GetBooks (Some 1) (Some 10)"
          and sixteenth = "DeleteAll (Some ''Bearer admin-token'')"
          and later = "GetBooks (Some 1) (Some 10)"]
    by (simp only: rs st last message_def fst_conv snd_conv)
qed

section \<open>The Store at process start\<close>

text \<open>
  Claim C10: at process start the Store holds the two Books of lines 59 to 62 in that
  order. A list request without query parameters (page 1, limit 10) handled in that state
  returns both, and every create that succeeds in that state (status 201) is assigned
  id 3 and appended.
\<close>

theorem initial_store:
  "books0 =
     [\<lparr>book_id = 1, title = JStr ''1984'', author = JStr ''George Orwell''\<rparr>,
      \<lparr>book_id = 2, title = JStr ''The Hobbit'', author = JStr ''J.R.R. Tolkien''\<rparr>] \<and>
   handle lc books0 (GetBooks (Some 1) (Some 10)) = (Response 200 (Books books0), books0) \<and>
   (\<forall>token bid btitle bauthor p books'.
      handle lc books0 (PostBook token bid btitle bauthor) = (Response 201 p, books') \<longrightarrow>
        p = OneBook \<lparr>book_id = 3, title = the btitle, author = the bauthor\<rparr> \<and>
        books' = books0 @ [\<lparr>book_id = 3, title = the btitle, author = the bauthor\<rparr>])"
proof (intro conjI allI impI)
  show "books0 =
     [\<lparr>book_id = 1, title = JStr ''1984'', author = JStr ''George Orwell''\<rparr>,
      \<lparr>book_id = 2, title = JStr ''The Hobbit'', author = JStr ''J.R.R. Tolkien''\<rparr>]"
    by (simp add: books0_def)
  show "handle lc books0 (GetBooks (Some 1) (Some 10)) = (Response 200 (Books books0), books0)"
    by (simp add: get_books_def slice_def slice_index_def books0_def)
next
  fix token bid btitle bauthor p books'
  assume h: "handle lc books0 (PostBook token bid btitle bauthor) = (Response 201 p, books')"
  have len: "int (length books0) + 1 = 3"
    by (simp add: books0_def)
  from h have "p = OneBook \<lparr>book_id = 3, title = the btitle, author = the bauthor\<rparr> \<and>
        books' = books0 @ [\<lparr>book_id = 3, title = the btitle, author = the bauthor\<rparr>]"
    by (auto simp: post_book_def requireAuth_def error_handler_def Let_def len
          split: option.splits if_splits sum.splits)
  then show "p = OneBook \<lparr>book_id = 3, title = the btitle, author = the bauthor\<rparr>"
    and "books' = books0 @ [\<lparr>book_id = 3, title = the btitle, author = the bauthor\<rparr>]"
    by simp_all
qed

text \<open>
  Claim C10 on a concrete create: the first Book created after process start has id 3.
\<close>

theorem initial_store_witness:
  "handle ascii_lower books0
     (PostBook (Some ''Bearer user-token'') None
        (Some (JStr ''Emma'')) (Some (JStr ''Jane Austen''))) =
   (Response 201
      (OneBook \<lparr>book_id = 3, title = JStr ''Emma'', author = JStr ''Jane Austen''\<rparr>),
    books0 @ [\<lparr>book_id = 3, title = JStr ''Emma'', author = JStr ''Jane Austen''\<rparr>])"
proof -
  let ?req = "PostBook (Some ''Bearer user-token'') None
          (Some (JStr ''Emma'')) (Some (JStr ''Jane Austen''))"
  have ok: "status (fst (handle ascii_lower books0 ?req)) = 201"
    by code_simp
  obtain r books' where r: "handle ascii_lower books0 ?req = (r, books')"
    by (cases "handle ascii_lower books0 ?req")
  obtain n p where "r = Response n p"
    by (cases r)
  with ok r have created: "handle ascii_lower books0 ?req = (Response 201 p, books')"
    by simp
  from initial_store [where lc = ascii_lower] have
    "\<forall>token bid btitle bauthor p books'.
      handle ascii_lower books0 (PostBook token bid btitle bauthor) = (Response 201 p, books') \<longrightarrow>
        p = OneBook \<lparr>book_id = 3, title = the btitle, author = the bauthor\<rparr> \<and>
        books' = books0 @ [\<lparr>book_id = 3, title = the btitle, author = the bauthor\<rparr>]"
    by blast
  with created have "p = OneBook \<lparr>book_id = 3, title = JStr ''Emma'', author = JStr ''Jane Austen''\<rparr>"
    and "books' = books0 @ [\<lparr>book_id = 3, title = JStr ''Emma'', author = JStr ''Jane Austen''\<rparr>]"
    by fastforce+
  with created show ?thesis by simp
qed

end
